theory Spec2Isabelle
  imports Main "HOL-Library.AList"
begin

section \<open>Python string primitives used by gumo.logging\<close>

text \<open>
  \<open>str.find\<close> for a one-character needle: the index of the first occurrence, or \<open>-1\<close>.
\<close>

fun str_find :: "char \<Rightarrow> string \<Rightarrow> int" where
  "str_find c [] = - 1"
| "str_find c (x # xs) =
     (if x = c then 0
      else (let r = str_find c xs in if r < 0 then - 1 else r + 1))"

text \<open>
  \<open>str.split(sep)\<close> for a one-character separator and no \<open>maxsplit\<close>: the string is cut at
  every occurrence, so the result has one more element than there are separators.
\<close>

fun str_split :: "char \<Rightarrow> string \<Rightarrow> string list" where
  "str_split c [] = [[]]"
| "str_split c (x # xs) =
     (if x = c then [] # str_split c xs
      else (case str_split c xs of
              [] \<Rightarrow> [[x]]
            | p # ps \<Rightarrow> (x # p) # ps))"

text \<open>
  \<open>str.replace(old, new)\<close>: every non-overlapping occurrence of \<open>old\<close>, scanning from the
  left, is replaced. For an empty \<open>old\<close> Python inserts \<open>new\<close> before every character and
  at the end.
\<close>

function str_replace :: "string \<Rightarrow> string \<Rightarrow> string \<Rightarrow> string" where
  "str_replace old new [] = (if old = [] then new else [])"
| "str_replace old new (c # cs) =
     (if old = [] then new @ c # str_replace old new cs
      else if take (length old) (c # cs) = old
           then new @ str_replace old new (drop (length old) (c # cs))
           else c # str_replace old new cs)"
  by pat_completeness auto
termination
  by (relation "measure (\<lambda>(old, new, s). length s)") auto

text \<open>Decimal rendering of integers, as \<open>str(int)\<close> and \<open>format\<close> produce it.\<close>

definition digit_char :: "nat \<Rightarrow> char" where
  "digit_char n = ''0123456789'' ! n"

fun show_nat :: "nat \<Rightarrow> string" where
  "show_nat n =
     (if n < 10 then [digit_char n]
      else show_nat (n div 10) @ [digit_char (n mod 10)])"

declare show_nat.simps [simp del]

definition show_int :: "int \<Rightarrow> string" where
  "show_int i = (if i < 0 then CHR ''-'' # show_nat (nat (- i)) else show_nat (nat i))"

text \<open>An f-string field holding an \<open>Optional[str]\<close>: \<open>None\<close> renders as the text \<open>None\<close>.\<close>

fun fstr_opt :: "string option \<Rightarrow> string" where
  "fstr_opt None = ''None''"
| "fstr_opt (Some s) = s"


section \<open>The data model\<close>

datatype py_error = ValueError | AttributeError | IndexError

record LoggerContext =
  trace :: "string option"
  span_id :: "string option"

text \<open>
  A message value handed to a log call, as far as the facility looks at it: whether it is
  an instance of \<open>BaseException\<close>, its \<open>repr\<close> and its \<open>str\<close>.
\<close>

record pyobject =
  is_exception :: bool
  py_repr :: string
  py_str :: string

text \<open>
  One entry of \<open>inspect.stack()\<close>. \<open>f_self\<close> is what \<open>frame.f_locals.get('self')\<close> yields:
  \<open>None\<close> when the frame has no such local (or it is bound to \<open>None\<close>), otherwise whether
  the object is an instance of the logger's class.
\<close>

datatype self_object = LoggerInstance | OtherInstance

record FrameInfo =
  f_self :: "self_object option"
  filename :: string
  lineno :: int
  func_name :: string

text \<open>The values a payload dictionary holds; a dictionary keeps its insertion order.\<close>

datatype jvalue = JStr string | JInt int | JObj "(string \<times> jvalue) list"

type_synonym pydict = "(string \<times> jvalue) list"

text \<open>
  What a call reads from its surroundings: the two clock readings
  (\<open>datetime.utcnow().isoformat()\<close> and \<open>str(datetime.now())\<close>), the formatted traceback of
  the exception being handled, if any, the call stack of \<open>inspect.stack()\<close> (innermost
  frame first), the process environment and the working directory.
\<close>

record env =
  utcnow_isoformat :: string
  now_str :: string
  exc_info :: "string option"
  stack :: "FrameInfo list"
  environ :: "(string \<times> string) list"
  getcwd :: string

text \<open>
  Two library renderers are left abstract: \<open>json_dumps\<close> stands for
  \<open>json.dumps(d, ensure_ascii=False)\<close> and \<open>str_dict\<close> for \<open>str\<close> of a dictionary.
\<close>

record pylib =
  json_dumps :: "pydict \<Rightarrow> string"
  str_dict :: "pydict \<Rightarrow> string"

text \<open>Output streams, and the part of the standard \<open>logging\<close> module the facility drives.\<close>

datatype stream = Stdout | Stderr

record Handler =
  h_stream :: stream
  h_level :: int
  h_fmt :: string

record PyLogger =
  lg_propagate :: bool
  lg_level :: int
  lg_handlers :: "Handler list"

text \<open>
  The process-wide logger table of \<open>logging\<close>: the root logger and the named loggers.
  A logger object is referred to by its name, since \<open>logging.getLogger(name)\<close> hands out
  the same object for the same name. The names used here have no dot, so the parent of a
  named logger is the root logger.
\<close>

record logging =
  root :: PyLogger
  loggers :: "string \<rightharpoonup> PyLogger"

record world =
  registry :: logging
  out :: "string list"
  err :: "string list"

definition NOTSET :: int where "NOTSET = 0"
definition DEBUG :: int where "DEBUG = 10"
definition INFO :: int where "INFO = 20"
definition WARNING :: int where "WARNING = 30"
definition ERROR :: int where "ERROR = 40"
definition CRITICAL :: int where "CRITICAL = 50"
definition FATAL :: int where "FATAL = CRITICAL"

definition NL :: string where
  "NL = [CHR 0x0A]"

record LoggerManager =
  mgr_project_id :: string
  mgr_fetch_logger_context_func :: "(unit \<Rightarrow> LoggerContext option) option"
  mgr_structured_log_enabled :: bool
  mgr_default_logger :: string
  mgr_default_handler :: Handler
  mgr_error_logger :: string
  mgr_error_handler :: Handler

record GumoLogger =
  gl_project_id :: string
  gl_default_logger :: string
  gl_error_logger :: string
  gl_logger_context :: LoggerContext
  gl_structured_log_enabled :: bool
  gl_fetch_logger_context_func :: "(unit \<Rightarrow> LoggerContext option) option"
  gl_cwd :: string


section \<open>The standard logging module, as far as it is driven\<close>

text \<open>\<open>logging.getLogger(name)\<close>: the logger of that name, created on first use.\<close>

definition logging_getLogger :: "logging \<Rightarrow> string \<Rightarrow> PyLogger" where
  "logging_getLogger reg name =
     (case loggers reg name of
        Some lg \<Rightarrow> lg
      | None \<Rightarrow> \<lparr>lg_propagate = True, lg_level = NOTSET, lg_handlers = []\<rparr>)"

text \<open>
  \<open>Logger.hasHandlers\<close>: the logger's own handlers, then those of its ancestors for as
  long as \<open>propagate\<close> is set.
\<close>

definition hasHandlers :: "logging \<Rightarrow> PyLogger \<Rightarrow> bool" where
  "hasHandlers reg lg =
     (lg_handlers lg \<noteq> [] \<or> (lg_propagate lg \<and> lg_handlers (root reg) \<noteq> []))"

definition getEffectiveLevel :: "logging \<Rightarrow> PyLogger \<Rightarrow> int" where
  "getEffectiveLevel reg lg = (if lg_level lg \<noteq> NOTSET then lg_level lg else lg_level (root reg))"

text \<open>
  A percent-style format in which only the \<open>%(message)s\<close> field occurs: the field is
  replaced by the message.
\<close>

definition format_message :: "string \<Rightarrow> string \<Rightarrow> string" where
  "format_message fmt msg = str_replace ''%(message)s'' msg fmt"

text \<open>\<open>StreamHandler.emit\<close>: the formatted record and the terminator go to the stream.\<close>

definition emit :: "Handler \<Rightarrow> string \<Rightarrow> world \<Rightarrow> world" where
  "emit h msg w =
     (let text = format_message (h_fmt h) msg @ NL
      in case h_stream h of
           Stdout \<Rightarrow> w\<lparr>out := out w @ [text]\<rparr>
         | Stderr \<Rightarrow> w\<lparr>err := err w @ [text]\<rparr>)"

fun callHandlers :: "Handler list \<Rightarrow> int \<Rightarrow> string \<Rightarrow> world \<Rightarrow> world" where
  "callHandlers [] lvl msg w = w"
| "callHandlers (h # hs) lvl msg w =
     callHandlers hs lvl msg (if lvl \<ge> h_level h then emit h msg w else w)"

definition lastResort :: Handler where
  "lastResort = \<lparr>h_stream = Stderr, h_level = WARNING, h_fmt = ''%(message)s''\<rparr>"

text \<open>
  \<open>Logger.log(level, msg)\<close> on the logger of the given name: nothing happens below the
  effective level; otherwise every handler found on the logger (and on the root while
  \<open>propagate\<close> is set) whose level admits the record emits it, and with no handler at all
  the handler of last resort does. A name that is not in the table stands for no logger
  object, and nothing is written.
\<close>

definition Logger_log :: "string \<Rightarrow> int \<Rightarrow> string \<Rightarrow> world \<Rightarrow> world" where
  "Logger_log name lvl msg w =
     (case loggers (registry w) name of
        None \<Rightarrow> w
      | Some lg \<Rightarrow>
          (if lvl \<ge> getEffectiveLevel (registry w) lg then
             (let hs = lg_handlers lg
                       @ (if lg_propagate lg then lg_handlers (root (registry w)) else [])
              in if hs = [] then callHandlers [lastResort] lvl msg w
                 else callHandlers hs lvl msg w)
           else w))"

text \<open>
  \<open>logging.getLevelName\<close> for a numeric level: the name in the level table, otherwise
  the text \<open>Level n\<close>.
\<close>

definition getLevelName :: "int \<Rightarrow> string" where
  "getLevelName lvl =
     (if lvl = CRITICAL then ''CRITICAL''
      else if lvl = ERROR then ''ERROR''
      else if lvl = WARNING then ''WARNING''
      else if lvl = INFO then ''INFO''
      else if lvl = DEBUG then ''DEBUG''
      else if lvl = NOTSET then ''NOTSET''
      else ''Level '' @ show_int lvl)"

text \<open>
  \<open>traceback.format_exc()\<close>: the formatted traceback of the exception being handled; with
  no exception being handled it formats the empty exception triple, which gives the line
  \<open>NoneType: None\<close>.
\<close>

definition format_exc :: "env \<Rightarrow> string" where
  "format_exc e =
     (case exc_info e of
        None \<Rightarrow> ''NoneType: None'' @ NL
      | Some tb \<Rightarrow> tb)"


section \<open>LoggerManager\<close>

text \<open>\<open>LoggerManager._build_logger\<close>; it returns the changed logger table as well.\<close>

definition build_logger ::
  "string \<Rightarrow> stream \<Rightarrow> int \<Rightarrow> logging \<Rightarrow> logging \<times> string \<times> Handler" where
  "build_logger logger_name strm lvl reg =
     (let handler = \<lparr>h_stream = strm, h_level = lvl, h_fmt = ''%(message)s''\<rparr>;
          logger = logging_getLogger reg logger_name;
          logger = logger\<lparr>lg_propagate := False\<rparr>;
          logger = logger\<lparr>lg_level := lvl\<rparr>;
          logger = (if \<not> hasHandlers reg logger
                    then logger\<lparr>lg_handlers := lg_handlers logger @ [handler]\<rparr>
                    else logger)
      in (reg\<lparr>loggers := (loggers reg)(logger_name \<mapsto> logger)\<rparr>, logger_name, handler))"

text \<open>\<open>LoggerManager.__init__\<close>.\<close>

definition LoggerManager_init ::
  "env \<Rightarrow> (unit \<Rightarrow> LoggerContext option) option \<Rightarrow> logging \<Rightarrow> logging \<times> LoggerManager" where
  "LoggerManager_init e fetch_logger_context_func reg =
     (let project_id = (case map_of (environ e) ''GOOGLE_CLOUD_PROJECT'' of
                          None \<Rightarrow> ''<unknown-project>''
                        | Some p \<Rightarrow> p);
          is_google_platform = (map_of (environ e) ''GAE_DEPLOYMENT_ID'' \<noteq> None);
          (reg1, default_logger, default_handler) =
             build_logger ''default_logger'' Stdout DEBUG reg;
          (reg2, error_logger, error_handler) =
             build_logger ''default_logger'' Stderr DEBUG reg1
      in (reg2,
          \<lparr>mgr_project_id = project_id,
           mgr_fetch_logger_context_func = fetch_logger_context_func,
           mgr_structured_log_enabled = is_google_platform,
           mgr_default_logger = default_logger,
           mgr_default_handler = default_handler,
           mgr_error_logger = error_logger,
           mgr_error_handler = error_handler\<rparr>))"

text \<open>
  \<open>LoggerManager._build_trace_and_span\<close>. The tuple assignment
  \<open>trace_id, span_id = trace_header.split('/', )\<close> raises \<open>ValueError\<close> unless the split
  yields exactly two parts; the f-string is evaluated whatever \<open>trace_id\<close> holds.
\<close>

definition split_trace_header :: "string \<Rightarrow> py_error + (string option \<times> string option)" where
  "split_trace_header h =
     (if str_find CHR ''/'' h \<ge> 0 then
        (case str_split CHR ''/'' h of
           [tid, sid] \<Rightarrow>
             (if str_find CHR '';'' sid \<ge> 0 then
                (case str_split CHR '';'' sid of
                   [] \<Rightarrow> Inl IndexError
                 | p # _ \<Rightarrow> Inr (Some tid, Some p))
              else Inr (Some tid, Some sid))
         | _ \<Rightarrow> Inl ValueError)
      else Inr (None, None))"

definition build_trace_and_span ::
  "LoggerManager \<Rightarrow> string option \<Rightarrow> py_error + (string option \<times> string option)" where
  "build_trace_and_span self trace_header =
     (case trace_header of
        None \<Rightarrow> Inr (None, None)
      | Some h \<Rightarrow>
          (case split_trace_header h of
             Inl ex \<Rightarrow> Inl ex
           | Inr (trace_id, sid) \<Rightarrow>
               Inr (Some (''projects/'' @ mgr_project_id self @ ''/traces/'' @ fstr_opt trace_id),
                    sid)))"

definition getLoggerContext :: "LoggerManager \<Rightarrow> string option \<Rightarrow> py_error + LoggerContext" where
  "getLoggerContext self trace_header =
     (case build_trace_and_span self trace_header of
        Inl ex \<Rightarrow> Inl ex
      | Inr (t, s) \<Rightarrow> Inr \<lparr>trace = t, span_id = s\<rparr>)"

text \<open>\<open>LoggerManager.getLogger\<close>; \<open>GumoLogger.__init__\<close> reads the working directory.\<close>

definition getLogger :: "LoggerManager \<Rightarrow> env \<Rightarrow> string option \<Rightarrow> py_error + GumoLogger" where
  "getLogger self e trace_header =
     (case getLoggerContext self trace_header of
        Inl ex \<Rightarrow> Inl ex
      | Inr logger_context \<Rightarrow>
          Inr \<lparr>gl_project_id = mgr_project_id self,
               gl_default_logger = mgr_default_logger self,
               gl_error_logger = mgr_error_logger self,
               gl_logger_context = logger_context,
               gl_structured_log_enabled = mgr_structured_log_enabled self,
               gl_fetch_logger_context_func = mgr_fetch_logger_context_func self,
               gl_cwd = getcwd e @ ''/''\<rparr>)"


section \<open>GumoLogger\<close>

text \<open>\<open>GumoLogger._build_message_text\<close>.\<close>

definition build_message_text :: "env \<Rightarrow> pyobject \<Rightarrow> string" where
  "build_message_text e msg =
     (if is_exception msg then py_repr msg @ NL @ format_exc e
      else py_str msg)"

text \<open>
  \<open>GumoLogger._find_caller\<close>: the loop over the stack with its flag, then the dictionary
  built from the frame found.
\<close>

definition stack_in_custom_logger :: "FrameInfo \<Rightarrow> bool" where
  "stack_in_custom_logger s =
     (case f_self s of
        None \<Rightarrow> False
      | Some obj \<Rightarrow> obj = LoggerInstance)"

fun find_caller_loop :: "bool \<Rightarrow> FrameInfo list \<Rightarrow> FrameInfo option" where
  "find_caller_loop callee_is_custom_logger [] = None"
| "find_caller_loop callee_is_custom_logger (s # rest) =
     (if stack_in_custom_logger s then find_caller_loop True rest
      else if callee_is_custom_logger then Some s
      else find_caller_loop callee_is_custom_logger rest)"

definition caller_dict :: "FrameInfo \<Rightarrow> jvalue" where
  "caller_dict caller_stack =
     JObj [(''file'', JStr (filename caller_stack)),
           (''line'', JInt (lineno caller_stack)),
           (''function'', JStr (func_name caller_stack))]"

definition find_caller :: "env \<Rightarrow> jvalue option" where
  "find_caller e =
     (case find_caller_loop False (stack e) of
        None \<Rightarrow> None
      | Some caller_stack \<Rightarrow> Some (caller_dict caller_stack))"

text \<open>
  \<open>GumoLogger._build_log_payload\<close>. Assigning to a key of a dictionary replaces the value
  in place or appends the key, which is \<open>AList.update\<close>.
\<close>

definition build_log_payload :: "GumoLogger \<Rightarrow> env \<Rightarrow> int \<Rightarrow> pyobject \<Rightarrow> pydict" where
  "build_log_payload self e lvl msg =
     (let j = [(''timestamp'', JStr (utcnow_isoformat e @ ''Z'')),
               (''Message'', JStr (build_message_text e msg)),
               (''severity'', JStr (getLevelName lvl))];
          j = (case trace (gl_logger_context self) of
                 None \<Rightarrow> j
               | Some t \<Rightarrow> AList.update ''logging.googleapis.com/trace'' (JStr t) j);
          j = (case span_id (gl_logger_context self) of
                 None \<Rightarrow> j
               | Some sp \<Rightarrow> AList.update ''logging.googleapis.com/spanId'' (JStr sp) j);
          caller = find_caller e;
          j = (case caller of
                 None \<Rightarrow> j
               | Some c \<Rightarrow> AList.update ''logging.googleapis.com/sourceLocation'' c j)
      in j)"

definition json_formatter :: "pylib \<Rightarrow> pydict \<Rightarrow> string" where
  "json_formatter lib d = json_dumps lib d"

text \<open>A field of \<open>str.format\<close>: \<open>None\<close>, a string, an integer or a dictionary.\<close>

definition fmt_field :: "pylib \<Rightarrow> jvalue option \<Rightarrow> string" where
  "fmt_field lib v =
     (case v of
        None \<Rightarrow> ''None''
      | Some (JStr s) \<Rightarrow> s
      | Some (JInt i) \<Rightarrow> show_int i
      | Some (JObj d) \<Rightarrow> str_dict lib d)"

text \<open>
  \<open>GumoLogger._log_text_formatter\<close>. \<open>.get\<close> on a value that is no dictionary and
  \<open>.replace\<close> on a value that is no string raise \<open>AttributeError\<close>.
\<close>

definition log_text_formatter :: "pylib \<Rightarrow> GumoLogger \<Rightarrow> env \<Rightarrow> pydict \<Rightarrow> py_error + string" where
  "log_text_formatter lib self e d =
     (case (case map_of d ''logging.googleapis.com/sourceLocation'' of
              None \<Rightarrow> JObj []
            | Some v \<Rightarrow> v) of
        JObj loc \<Rightarrow>
          (let line = (case map_of loc ''line'' of None \<Rightarrow> JStr ''-'' | Some v \<Rightarrow> v);
               file = (case map_of loc ''file'' of None \<Rightarrow> JStr ''<unknown>'' | Some v \<Rightarrow> v)
           in case file of
                JStr f \<Rightarrow>
                  (let file' = str_replace (gl_cwd self) [] f
                   in Inr (''['' @ now_str e @ '']'' @ fmt_field lib (map_of d ''severity'')
                           @ '':'' @ file' @ '':'' @ fmt_field lib (Some line)
                           @ '': '' @ fmt_field lib (map_of d ''Message'')))
              | _ \<Rightarrow> Inl AttributeError)
      | _ \<Rightarrow> Inl AttributeError)"

definition formatter :: "pylib \<Rightarrow> GumoLogger \<Rightarrow> env \<Rightarrow> pydict \<Rightarrow> py_error + string" where
  "formatter lib self e d =
     (if gl_structured_log_enabled self then Inr (json_formatter lib d)
      else log_text_formatter lib self e d)"

definition fetch_logger_context :: "GumoLogger \<Rightarrow> GumoLogger" where
  "fetch_logger_context self =
     (case gl_fetch_logger_context_func self of
        None \<Rightarrow> self
      | Some f \<Rightarrow>
          (case f () of
             None \<Rightarrow> self
           | Some context \<Rightarrow> self\<lparr>gl_logger_context := context\<rparr>))"

text \<open>
  \<open>GumoLogger._log\<close>: the logger (its context may have been replaced) and the world after
  the call.
\<close>

definition log_impl ::
  "pylib \<Rightarrow> GumoLogger \<Rightarrow> env \<Rightarrow> int \<Rightarrow> pyobject \<Rightarrow> world \<Rightarrow> py_error + (GumoLogger \<times> world)" where
  "log_impl lib self0 e lvl msg w =
     (let self = fetch_logger_context self0;
          payload = build_log_payload self e lvl msg
      in case formatter lib self e payload of
           Inl ex \<Rightarrow> Inl ex
         | Inr text \<Rightarrow>
             (if lvl \<ge> ERROR then Inr (self, Logger_log (gl_error_logger self) lvl text w)
              else Inr (self, Logger_log (gl_default_logger self) lvl text w)))"

definition debug :: "pylib \<Rightarrow> GumoLogger \<Rightarrow> env \<Rightarrow> pyobject \<Rightarrow> world \<Rightarrow> py_error + (GumoLogger \<times> world)" where
  "debug lib self e msg w = log_impl lib self e DEBUG msg w"

definition info :: "pylib \<Rightarrow> GumoLogger \<Rightarrow> env \<Rightarrow> pyobject \<Rightarrow> world \<Rightarrow> py_error + (GumoLogger \<times> world)" where
  "info lib self e msg w = log_impl lib self e INFO msg w"

definition warning :: "pylib \<Rightarrow> GumoLogger \<Rightarrow> env \<Rightarrow> pyobject \<Rightarrow> world \<Rightarrow> py_error + (GumoLogger \<times> world)" where
  "warning lib self e msg w = log_impl lib self e WARNING msg w"

definition error :: "pylib \<Rightarrow> GumoLogger \<Rightarrow> env \<Rightarrow> pyobject \<Rightarrow> world \<Rightarrow> py_error + (GumoLogger \<times> world)" where
  "error lib self e msg w = log_impl lib self e ERROR msg w"

definition exception :: "pylib \<Rightarrow> GumoLogger \<Rightarrow> env \<Rightarrow> pyobject \<Rightarrow> world \<Rightarrow> py_error + (GumoLogger \<times> world)" where
  "exception lib self e msg w = error lib self e msg w"

definition critical :: "pylib \<Rightarrow> GumoLogger \<Rightarrow> env \<Rightarrow> pyobject \<Rightarrow> world \<Rightarrow> py_error + (GumoLogger \<times> world)" where
  "critical lib self e msg w = log_impl lib self e CRITICAL msg w"

definition fatal :: "pylib \<Rightarrow> GumoLogger \<Rightarrow> env \<Rightarrow> pyobject \<Rightarrow> world \<Rightarrow> py_error + (GumoLogger \<times> world)" where
  "fatal lib self e msg w = log_impl lib self e FATAL msg w"

definition log :: "pylib \<Rightarrow> GumoLogger \<Rightarrow> env \<Rightarrow> int \<Rightarrow> pyobject \<Rightarrow> world \<Rightarrow> py_error + (GumoLogger \<times> world)" where
  "log lib self e lvl msg w = log_impl lib self e lvl msg w"

section \<open>The caller, in the words of the specification\<close>



section \<open>Sample values\<close>

text \<open>
  The stack of \<open>logger.info(...)\<close> called from a view function of the sample application:
  four frames of the logger itself, the view function, and a frame of the web framework.
\<close>

definition sample_stack :: "FrameInfo list" where
  "sample_stack =
     [\<lparr>f_self = Some LoggerInstance, filename = ''/srv/gumo/logging/__init__.py'',
       lineno = 149, func_name = ''_find_caller''\<rparr>,
      \<lparr>f_self = Some LoggerInstance, filename = ''/srv/gumo/logging/__init__.py'',
       lineno = 73, func_name = ''_build_log_payload''\<rparr>,
      \<lparr>f_self = Some LoggerInstance, filename = ''/srv/gumo/logging/__init__.py'',
       lineno = 115, func_name = ''_log''\<rparr>,
      \<lparr>f_self = Some LoggerInstance, filename = ''/srv/gumo/logging/__init__.py'',
       lineno = 125, func_name = ''info''\<rparr>,
      \<lparr>f_self = None, filename = ''/srv/sample/main.py'',
       lineno = 35, func_name = ''hello''\<rparr>,
      \<lparr>f_self = Some OtherInstance, filename = ''/usr/lib/flask/app.py'',
       lineno = 1799, func_name = ''dispatch_request''\<rparr>]"

definition sample_env :: env where
  "sample_env =
     \<lparr>utcnow_isoformat = ''2020-01-01T00:00:00'', now_str = ''2020-01-01 09:00:00'',
      exc_info = None, stack = sample_stack,
      environ = [(''GOOGLE_CLOUD_PROJECT'', ''myproj'')], getcwd = ''/srv''\<rparr>"


definition sample_msg :: pyobject where
  "sample_msg = \<lparr>is_exception = False, py_repr = ''0'', py_str = ''0''\<rparr>"

text \<open>The logger table of a process that has not configured logging yet.\<close>

definition fresh_logging :: logging where
  "fresh_logging =
     \<lparr>root = \<lparr>lg_propagate = True, lg_level = WARNING, lg_handlers = []\<rparr>,
      loggers = Map.empty\<rparr>"

text \<open>
  A sink bound to a stream: a logger as \<open>_build_logger\<close> sets it up under a name of its
  own, with one message-only handler on that stream.
\<close>

definition stream_sink :: "world \<Rightarrow> string \<Rightarrow> stream \<Rightarrow> bool" where
  "stream_sink w name strm \<longleftrightarrow>
     loggers (registry w) name
       = Some \<lparr>lg_propagate = False, lg_level = DEBUG,
               lg_handlers = [\<lparr>h_stream = strm, h_level = DEBUG, h_fmt = ''%(message)s''\<rparr>]\<rparr>"







section \<open>Facts about the string primitives\<close>

lemma str_find_nonneg_iff: "str_find c s \<ge> 0 \<longleftrightarrow> c \<in> set s"
  by (induction s) (auto simp: Let_def)



lemma str_split_nonempty: "str_split c s \<noteq> []"
  by (induction s) (auto split: list.splits)


section \<open>Parsing the trace header\<close>

text \<open>
  C5: with project id \<open>myproj\<close>, the header \<open>abc123/456;o=1\<close> is parsed into the trace
  \<open>projects/myproj/traces/abc123\<close> and the span id \<open>456\<close>; a null header gives a context
  whose trace and span id are both null.
\<close>

theorem parse_documented_examples:
  "getLoggerContext (self\<lparr>mgr_project_id := ''myproj''\<rparr>) (Some ''abc123/456;o=1'')
     = Inr \<lparr>trace = Some ''projects/myproj/traces/abc123'', span_id = Some ''456''\<rparr>
   \<and> getLoggerContext self None = Inr \<lparr>trace = None, span_id = None\<rparr>"
  by (simp add: getLoggerContext_def build_trace_and_span_def split_trace_header_def)

text \<open>
  A header without \<open>/\<close> leaves \<open>trace_id\<close> at \<open>None\<close>, and the trace is formatted all the
  same: it ends in the text \<open>None\<close>. Only the span id is null.
\<close>

lemma header_without_slash:
  "CHR ''/'' \<notin> set h \<Longrightarrow>
   getLoggerContext self (Some h)
     = Inr \<lparr>trace = Some (''projects/'' @ mgr_project_id self @ ''/traces/None''),
            span_id = None\<rparr>"
  using str_find_nonneg_iff [of "CHR ''/''" h]
  by (simp add: getLoggerContext_def build_trace_and_span_def split_trace_header_def)

text \<open>
  C1: for the header \<open>abc123\<close>, which has no \<open>/\<close>, the context returned has a null span id
  but its trace is the string \<open>projects/myproj/traces/None\<close>, not null.
\<close>

theorem header_without_slash_trace_is_text_None:
  "getLoggerContext (self\<lparr>mgr_project_id := ''myproj''\<rparr>) (Some ''abc123'')
     = Inr \<lparr>trace = Some ''projects/myproj/traces/None'', span_id = None\<rparr>"
  by (simp add: getLoggerContext_def build_trace_and_span_def split_trace_header_def)

text \<open>
  C2: for the header \<open>abc123/456/789\<close>, with two \<open>/\<close>, the split yields three parts and
  the tuple assignment raises \<open>ValueError\<close>; no context is returned.
\<close>

theorem header_with_two_slashes_raises:
  "getLoggerContext self (Some ''abc123/456/789'') = Inl ValueError"
  by (simp add: getLoggerContext_def build_trace_and_span_def split_trace_header_def)

section \<open>The message text\<close>

text \<open>
  C9 (as amended): for an error object the message text is its \<open>repr\<close>, a newline, and
  what \<open>traceback.format_exc()\<close> returns, which is the traceback of the exception being
  handled when there is one and the line \<open>NoneType: None\<close> when there is none; for any
  other value the message text is its \<open>str\<close>.
\<close>

theorem message_text_format:
  "build_message_text (e\<lparr>exc_info := Some tb\<rparr>) (msg\<lparr>is_exception := True\<rparr>)
     = py_repr msg @ NL @ tb
   \<and> build_message_text (e\<lparr>exc_info := None\<rparr>) (msg\<lparr>is_exception := True\<rparr>)
     = py_repr msg @ NL @ ''NoneType: None'' @ NL
   \<and> build_message_text e (msg\<lparr>is_exception := False\<rparr>) = py_str msg"
  by (simp add: build_message_text_def format_exc_def)

text \<open>
  With no exception being handled, the text after the newline is not empty: logging the
  error object \<open>ValueError(1)\<close> outside an \<open>except\<close> block does not give its \<open>repr\<close>
  followed by a newline and nothing else.
\<close>

theorem message_text_format_counterexample:
  "build_message_text
     \<lparr>utcnow_isoformat = ''2020-01-01T00:00:00'', now_str = ''2020-01-01 09:00:00'',
      exc_info = None, stack = [], environ = [], getcwd = ''/srv''\<rparr>
     \<lparr>is_exception = True, py_repr = ''ValueError(1)'', py_str = ''1''\<rparr>
   \<noteq> ''ValueError(1)'' @ NL @ []"
  by (simp add: build_message_text_def format_exc_def NL_def)


section \<open>Caller resolution\<close>



lemma find_caller_sample:
  "find_caller sample_env
     = Some (JObj [(''file'', JStr ''/srv/sample/main.py''), (''line'', JInt 35),
                   (''function'', JStr ''hello'')])"
  by (simp add: find_caller_def sample_env_def sample_stack_def stack_in_custom_logger_def
        caller_dict_def)


section \<open>The payload\<close>

lemma payload_lookups:
  "map_of (build_log_payload self e lvl msg) ''timestamp'' = Some (JStr (utcnow_isoformat e @ ''Z''))"
  "map_of (build_log_payload self e lvl msg) ''Message'' = Some (JStr (build_message_text e msg))"
  "map_of (build_log_payload self e lvl msg) ''severity'' = Some (JStr (getLevelName lvl))"
  "map_of (build_log_payload self e lvl msg) ''logging.googleapis.com/trace''
     = map_option JStr (trace (gl_logger_context self))"
  "map_of (build_log_payload self e lvl msg) ''logging.googleapis.com/spanId''
     = map_option JStr (span_id (gl_logger_context self))"
  "map_of (build_log_payload self e lvl msg) ''logging.googleapis.com/sourceLocation''
     = find_caller e"
  by (simp_all add: build_log_payload_def Let_def update_conv' split: option.splits)




text \<open>
  C6: the payload has the trace key exactly when the logger's context has a trace, the
  span id key exactly when the context has a span id, and the source location key only
  when the caller was found; the timestamp, message and severity keys are always there.
\<close>

theorem payload_keys:
  "(map_of (build_log_payload self e lvl msg) ''logging.googleapis.com/trace'' \<noteq> None
      \<longleftrightarrow> trace (gl_logger_context self) \<noteq> None)
   \<and> (map_of (build_log_payload self e lvl msg) ''logging.googleapis.com/spanId'' \<noteq> None
      \<longleftrightarrow> span_id (gl_logger_context self) \<noteq> None)
   \<and> (map_of (build_log_payload self e lvl msg) ''logging.googleapis.com/sourceLocation'' \<noteq> None
      \<longrightarrow> find_caller e \<noteq> None)
   \<and> map_of (build_log_payload self e lvl msg) ''timestamp'' \<noteq> None
   \<and> map_of (build_log_payload self e lvl msg) ''Message'' \<noteq> None
   \<and> map_of (build_log_payload self e lvl msg) ''severity'' \<noteq> None"
  by (simp add: payload_lookups)

theorem payload_keys_witness:
  "map_of (build_log_payload
             \<lparr>gl_project_id = ''myproj'', gl_default_logger = ''default_logger'',
              gl_error_logger = ''default_logger'',
              gl_logger_context =
                \<lparr>trace = Some ''projects/myproj/traces/abc123'', span_id = Some ''456''\<rparr>,
              gl_structured_log_enabled = True, gl_fetch_logger_context_func = None,
              gl_cwd = ''/srv/''\<rparr>
             sample_env INFO sample_msg) ''logging.googleapis.com/sourceLocation'' \<noteq> None
   \<and> find_caller sample_env \<noteq> None"
proof -
  let ?g = "\<lparr>gl_project_id = ''myproj'', gl_default_logger = ''default_logger'',
              gl_error_logger = ''default_logger'',
              gl_logger_context =
                \<lparr>trace = Some ''projects/myproj/traces/abc123'', span_id = Some ''456''\<rparr>,
              gl_structured_log_enabled = True, gl_fetch_logger_context_func = None,
              gl_cwd = ''/srv/''\<rparr>"
  have h: "map_of (build_log_payload ?g sample_env INFO sample_msg)
             ''logging.googleapis.com/sourceLocation'' \<noteq> None"
    by (simp add: payload_lookups find_caller_sample)
  show ?thesis
    using h payload_keys [of ?g sample_env INFO sample_msg] by blast
qed


section \<open>Writing to the sinks\<close>

lemma str_replace_whole: "old \<noteq> [] \<Longrightarrow> str_replace old new old = new"
  by (cases old) simp_all

lemma format_message_only [simp]: "format_message ''%(message)s'' msg = msg"
  by (simp add: format_message_def str_replace_whole)

lemma formatter_total:
  "\<exists>line. formatter lib self e (build_log_payload self e lvl msg) = Inr line"
  by (simp add: formatter_def log_text_formatter_def payload_lookups find_caller_def
        caller_dict_def Let_def split: option.splits)

lemma Logger_log_stream_sink:
  assumes "stream_sink w name strm" and "DEBUG \<le> lvl"
  shows "Logger_log name lvl line w
           = emit \<lparr>h_stream = strm, h_level = DEBUG, h_fmt = ''%(message)s''\<rparr> line w"
  using assms
  by (simp add: Logger_log_def stream_sink_def getEffectiveLevel_def DEBUG_def NOTSET_def)

lemma emit_streams:
  "out (emit \<lparr>h_stream = Stdout, h_level = l, h_fmt = ''%(message)s''\<rparr> line w) = out w @ [line @ NL]"
  "err (emit \<lparr>h_stream = Stdout, h_level = l, h_fmt = ''%(message)s''\<rparr> line w) = err w"
  "err (emit \<lparr>h_stream = Stderr, h_level = l, h_fmt = ''%(message)s''\<rparr> line w) = err w @ [line @ NL]"
  "out (emit \<lparr>h_stream = Stderr, h_level = l, h_fmt = ''%(message)s''\<rparr> line w) = out w"
  by (simp_all add: emit_def)

lemma fetch_logger_context_fields [simp]:
  "gl_structured_log_enabled (fetch_logger_context g) = gl_structured_log_enabled g"
  "gl_error_logger (fetch_logger_context g) = gl_error_logger g"
  "gl_default_logger (fetch_logger_context g) = gl_default_logger g"
  "gl_cwd (fetch_logger_context g) = gl_cwd g"
  by (simp_all add: fetch_logger_context_def split: option.splits)

text \<open>
  A logger constructed with two sinks of their own, the normal one on standard output and
  the error one on standard error: a log call at any of the six severities returns, and
  the line goes to standard error alone when the level is at least ERROR and to standard
  output alone otherwise.
\<close>

lemma log_routes_with_separate_sinks:
  assumes "lvl \<in> {DEBUG, INFO, WARNING, ERROR, CRITICAL, FATAL}"
    and "stream_sink w (gl_default_logger self) Stdout"
    and "stream_sink w (gl_error_logger self) Stderr"
  shows "\<exists>self' w' line.
           log lib self e lvl msg w = Inr (self', w')
           \<and> formatter lib self' e (build_log_payload self' e lvl msg) = Inr line
           \<and> (if lvl \<ge> ERROR
               then err w' = err w @ [line @ NL] \<and> out w' = out w
               else out w' = out w @ [line @ NL] \<and> err w' = err w)"
proof -
  obtain line where line:
    "formatter lib (fetch_logger_context self) e
       (build_log_payload (fetch_logger_context self) e lvl msg) = Inr line"
    using formatter_total by blast
  have enabled: "DEBUG \<le> lvl"
    using assms(1) by (auto simp: DEBUG_def INFO_def WARNING_def ERROR_def CRITICAL_def FATAL_def)
  show ?thesis
  proof (cases "lvl \<ge> ERROR")
    case True
    have "log lib self e lvl msg w
            = Inr (fetch_logger_context self,
                   emit \<lparr>h_stream = Stderr, h_level = DEBUG, h_fmt = ''%(message)s''\<rparr> line w)"
      using True line Logger_log_stream_sink [OF assms(3) enabled]
      by (simp add: log_def log_impl_def Let_def)
    with True line show ?thesis
      by (simp add: emit_streams)
  next
    case False
    have "log lib self e lvl msg w
            = Inr (fetch_logger_context self,
                   emit \<lparr>h_stream = Stdout, h_level = DEBUG, h_fmt = ''%(message)s''\<rparr> line w)"
      using False line Logger_log_stream_sink [OF assms(2) enabled]
      by (simp add: log_def log_impl_def Let_def)
    with False line show ?thesis
      by (simp add: emit_streams)
  qed
qed


section \<open>Constructing the manager\<close>

lemma init_fresh:
  "LoggerManager_init e hook fresh_logging =
     (fresh_logging\<lparr>loggers :=
        [''default_logger'' \<mapsto>
           \<lparr>lg_propagate = False, lg_level = DEBUG,
            lg_handlers = [\<lparr>h_stream = Stdout, h_level = DEBUG, h_fmt = ''%(message)s''\<rparr>]\<rparr>]\<rparr>,
      \<lparr>mgr_project_id = (case map_of (environ e) ''GOOGLE_CLOUD_PROJECT'' of
                           None \<Rightarrow> ''<unknown-project>'' | Some p \<Rightarrow> p),
       mgr_fetch_logger_context_func = hook,
       mgr_structured_log_enabled = (map_of (environ e) ''GAE_DEPLOYMENT_ID'' \<noteq> None),
       mgr_default_logger = ''default_logger'',
       mgr_default_handler = \<lparr>h_stream = Stdout, h_level = DEBUG, h_fmt = ''%(message)s''\<rparr>,
       mgr_error_logger = ''default_logger'',
       mgr_error_handler = \<lparr>h_stream = Stderr, h_level = DEBUG, h_fmt = ''%(message)s''\<rparr>\<rparr>)"
  by (simp add: LoggerManager_init_def build_logger_def logging_getLogger_def hasHandlers_def
        fresh_logging_def Let_def)

text \<open>Constructing a second manager leaves the logger table as it is.\<close>

lemma second_construction_adds_no_handler:
  "fst (LoggerManager_init e' hook' (fst (LoggerManager_init e hook fresh_logging)))
     = fst (LoggerManager_init e hook fresh_logging)"
  by (simp add: init_fresh)
     (simp add: LoggerManager_init_def build_logger_def logging_getLogger_def hasHandlers_def
        fresh_logging_def Let_def)

text \<open>
  C3: constructing the manager in a fresh process asks for the logger named
  \<open>default_logger\<close> twice. The error sink is therefore the normal sink; the handler on
  standard error is created but never attached, since the logger already has its handler
  on standard output; and a record logged at ERROR is written to standard output, with
  nothing on standard error.
\<close>

theorem error_sink_is_the_normal_sink:
  "mgr_error_logger (snd (LoggerManager_init e hook fresh_logging))
     = mgr_default_logger (snd (LoggerManager_init e hook fresh_logging))
   \<and> loggers (fst (LoggerManager_init e hook fresh_logging)) ''default_logger''
       = Some \<lparr>lg_propagate = False, lg_level = DEBUG,
               lg_handlers = [\<lparr>h_stream = Stdout, h_level = DEBUG, h_fmt = ''%(message)s''\<rparr>]\<rparr>
   \<and> (\<exists>g. getLogger (snd (LoggerManager_init e hook fresh_logging)) e None = Inr g
         \<and> (\<exists>g' line.
               error lib g e msg
                 \<lparr>registry = fst (LoggerManager_init e hook fresh_logging), out = [], err = []\<rparr>
               = Inr (g', \<lparr>registry = fst (LoggerManager_init e hook fresh_logging),
                           out = [line @ NL], err = []\<rparr>)))"
proof -
  let ?reg = "fst (LoggerManager_init e hook fresh_logging)"
  let ?m = "snd (LoggerManager_init e hook fresh_logging)"
  let ?w = "\<lparr>registry = ?reg, out = [], err = []\<rparr>"
  obtain g where g: "getLogger ?m e None = Inr g"
    and names: "gl_error_logger g = ''default_logger''"
    by (simp add: getLogger_def getLoggerContext_def build_trace_and_span_def init_fresh)
  have sink: "stream_sink ?w ''default_logger'' Stdout"
    by (simp add: stream_sink_def init_fresh)
  obtain line where line:
    "formatter lib (fetch_logger_context g) e
       (build_log_payload (fetch_logger_context g) e ERROR msg) = Inr line"
    using formatter_total by blast
  have "error lib g e msg ?w
          = Inr (fetch_logger_context g,
                 emit \<lparr>h_stream = Stdout, h_level = DEBUG, h_fmt = ''%(message)s''\<rparr> line ?w)"
    using line names Logger_log_stream_sink [OF sink, of ERROR line]
    by (simp add: error_def log_impl_def Let_def DEBUG_def ERROR_def)
  then have "error lib g e msg ?w = Inr (fetch_logger_context g, \<lparr>registry = ?reg, out = [line @ NL], err = []\<rparr>)"
    by (simp add: emit_def)
  with g show ?thesis
    by (auto simp: init_fresh)
qed


text \<open>
  C4: a logger minted by a manager constructed in a fresh process has the logger
  \<open>default_logger\<close> as its error sink and as its normal sink. A log call at CRITICAL,
  which is above ERROR, returns with its line written to standard output and nothing
  written to standard error, as a call at INFO does: the level does not select the sink.
\<close>

theorem minted_logger_writes_every_level_to_stdout:
  "\<exists>g. getLogger (snd (LoggerManager_init e hook fresh_logging)) e None = Inr g
        \<and> gl_error_logger g = gl_default_logger g
        \<and> (\<exists>g' line.
              formatter lib g' e (build_log_payload g' e CRITICAL msg) = Inr line
              \<and> log lib g e CRITICAL msg
                    \<lparr>registry = fst (LoggerManager_init e hook fresh_logging), out = ws, err = es\<rparr>
                  = Inr (g', \<lparr>registry = fst (LoggerManager_init e hook fresh_logging),
                              out = ws @ [line @ NL], err = es\<rparr>))
        \<and> (\<exists>g' line.
              formatter lib g' e (build_log_payload g' e INFO msg) = Inr line
              \<and> log lib g e INFO msg
                    \<lparr>registry = fst (LoggerManager_init e hook fresh_logging), out = ws, err = es\<rparr>
                  = Inr (g', \<lparr>registry = fst (LoggerManager_init e hook fresh_logging),
                              out = ws @ [line @ NL], err = es\<rparr>))"
proof -
  let ?reg = "fst (LoggerManager_init e hook fresh_logging)"
  let ?m = "snd (LoggerManager_init e hook fresh_logging)"
  let ?w = "\<lparr>registry = ?reg, out = ws, err = es\<rparr>"
  obtain g where g: "getLogger ?m e None = Inr g"
    and names: "gl_error_logger g = ''default_logger''" "gl_default_logger g = ''default_logger''"
    by (simp add: getLogger_def getLoggerContext_def build_trace_and_span_def init_fresh)
  have sink: "stream_sink ?w ''default_logger'' Stdout"
    by (simp add: stream_sink_def init_fresh)
  have written: "\<exists>line.
          formatter lib (fetch_logger_context g) e
            (build_log_payload (fetch_logger_context g) e lvl msg) = Inr line
          \<and> log lib g e lvl msg ?w
              = Inr (fetch_logger_context g, \<lparr>registry = ?reg, out = ws @ [line @ NL], err = es\<rparr>)"
    if "DEBUG \<le> lvl" for lvl
  proof -
    obtain line where line:
      "formatter lib (fetch_logger_context g) e
         (build_log_payload (fetch_logger_context g) e lvl msg) = Inr line"
      using formatter_total by blast
    have "log lib g e lvl msg ?w
            = Inr (fetch_logger_context g,
                   emit \<lparr>h_stream = Stdout, h_level = DEBUG, h_fmt = ''%(message)s''\<rparr> line ?w)"
      using line names Logger_log_stream_sink [OF sink that, of line]
      by (simp add: log_def log_impl_def Let_def)
    then have "log lib g e lvl msg ?w
            = Inr (fetch_logger_context g, \<lparr>registry = ?reg, out = ws @ [line @ NL], err = es\<rparr>)"
      by (simp add: emit_def)
    with line show ?thesis by blast
  qed
  have crit: "DEBUG \<le> CRITICAL" and inf: "DEBUG \<le> INFO"
    by (simp_all add: DEBUG_def CRITICAL_def INFO_def)
  show ?thesis
    using g names written [OF crit] written [OF inf] by auto
qed


section \<open>An empty span id\<close>








section \<open>Text mode\<close>

text \<open>
  C8: with the working directory \<open>/srv\<close>, a record whose caller is line 7 of
  \<open>/srv/lib/srv/main.py\<close> is rendered with the file \<open>libmain.py\<close>: \<open>replace\<close> removes
  the second occurrence of \<open>/srv/\<close> too, so the remainder of the path is not left as it
  was.
\<close>

theorem text_formatter_removes_inner_occurrence:
  "formatter lib (self\<lparr>gl_structured_log_enabled := False, gl_cwd := ''/srv/''\<rparr>)
     (sample_env\<lparr>stack :=
        [\<lparr>f_self = Some LoggerInstance, filename = ''/srv/gumo/logging/__init__.py'',
          lineno = 149, func_name = ''_find_caller''\<rparr>,
         \<lparr>f_self = None, filename = ''/srv/lib/srv/main.py'', lineno = 7, func_name = ''run''\<rparr>]\<rparr>)
     (build_log_payload (self\<lparr>gl_structured_log_enabled := False, gl_cwd := ''/srv/''\<rparr>)
        (sample_env\<lparr>stack :=
           [\<lparr>f_self = Some LoggerInstance, filename = ''/srv/gumo/logging/__init__.py'',
             lineno = 149, func_name = ''_find_caller''\<rparr>,
            \<lparr>f_self = None, filename = ''/srv/lib/srv/main.py'', lineno = 7, func_name = ''run''\<rparr>]\<rparr>)
        INFO sample_msg)
   = Inr ''[2020-01-01 09:00:00]INFO:libmain.py:7: 0''"
  by (simp add: formatter_def log_text_formatter_def payload_lookups find_caller_def
        stack_in_custom_logger_def caller_dict_def sample_env_def sample_msg_def
        build_message_text_def getLevelName_def fmt_field_def show_int_def
        show_nat.simps [of 7] digit_char_def
        INFO_def CRITICAL_def ERROR_def WARNING_def)

end

